theory Spec2Isabelle
  imports Main "HOL-Library.Word"
begin

section \<open>Data model\<close>

text \<open>
  A \<open>PublicKey\<close> is a 32-byte value (the account layout comments of the hook count
  32 bytes for each key field). A \<open>Buffer\<close> is a byte string; HOL characters are
  bytes, so \<open>Buffer.from(str)\<close> of a string is the string itself.
\<close>

type_synonym pubkey = "256 word"
type_synonym buffer = string

definition Buffer_from :: "string \<Rightarrow> buffer" where
  "Buffer_from s = s"

text \<open>A thrown JavaScript error: only its optional \<open>message\<close> is ever inspected.\<close>

datatype error = Error (message: "string option")

datatype accessLevel = Read | Write | Admin

datatype fileStatus = Uploading | Processing | Active

text \<open>\<open>FileRecord\<close> as the components declare it.\<close>

record fileAccount =
  fileName :: string
  fileSize :: int
  primaryStorage :: string
  status :: fileStatus
  isPublic :: bool
  createdAt :: int

record fileRecord =
  publicKey :: string
  account :: fileAccount

text \<open>
  A decoded \<open>sharedAccess\<close> account: 8 bytes of discriminator, then \<open>file_record\<close>
  at offset 8, \<open>owner\<close> at offset 40 and \<open>shared_with\<close> at offset 72.
\<close>

record sharedAccessAccount =
  sa_fileRecord :: pubkey
  sa_owner :: pubkey
  sharedWith :: pubkey
  accessLevel :: accessLevel
  expiresAt :: "int option"
  isActive :: bool

record sharedAccess =
  sa_publicKey :: pubkey
  sa_account :: sharedAccessAccount

record fileRef =
  ref_publicKey :: pubkey
  ref_account :: fileAccount

text \<open>\<open>SharedEntry\<close>: a grant joined with its parent file, \<open>None\<close> for \<open>file: null\<close>.\<close>

record sharedEntry =
  entry_sharedAccess :: sharedAccess
  entry_file :: "fileRef option"

section \<open>The ledger boundary\<close>

datatype instruction =
    Initialize
  | CreateUserProfileIx
  | CreateFileIx string int "int list" int int
  | RegisterStorageIx string "int list"
  | FinalizeFileIx
  | MakePublicIx
  | MakePrivateIx
  | GrantAccessIx pubkey accessLevel "int option"
  | RevokeAccessIx

record transaction =
  instruction :: instruction
  accounts :: "(string \<times> pubkey) list"

text \<open>
  Every request that leaves the client is appended to a log: account reads, account
  scans with their \<open>memcmp\<close> filter (offset and base58 bytes), single fetches, and
  signed transactions (\<open>.rpc()\<close>).
\<close>

datatype request =
    GetAccountInfo pubkey
  | FileRecordAll nat string
  | SharedAccessAll nat string
  | FileRecordFetch pubkey
  | Rpc transaction

text \<open>
  The parts of \<open>@solana/web3.js\<close> and of the repository's configuration module that
  the hook calls are parameters: the derivation function (which returns the address
  with its bump, or throws), the two encodings of a key, the \<open>PublicKey\<close> constructor
  (which throws on malformed text) and the two program ids.
\<close>

record sdk =
  findProgramAddressSync :: "buffer list \<Rightarrow> pubkey \<Rightarrow> error + pubkey \<times> nat"
  toBuffer :: "pubkey \<Rightarrow> buffer"
  toBase58 :: "pubkey \<Rightarrow> string"
  newPublicKey :: "string \<Rightarrow> error + pubkey"
  PROGRAM_ID :: pubkey
  SystemProgram_programId :: pubkey

text \<open>
  The environment of the hook: the wallet, whether the memoised \<open>program\<close> is
  non-null, which account namespaces the IDL gives the program, the clock, and the
  ledger's answers. The ledger is an external collaborator, so each answer is a
  function of the requests sent so far.
\<close>

record env =
  sdk :: sdk
  wallet_publicKey :: "pubkey option"
  program :: bool
  has_fileRecord :: bool
  has_sharedAccess :: bool
  Date_now :: int
  getAccountInfo :: "request list \<Rightarrow> pubkey \<Rightarrow> error + bool"
  rpc :: "request list \<Rightarrow> transaction \<Rightarrow> error + string"
  fileRecord_all :: "request list \<Rightarrow> nat \<Rightarrow> string \<Rightarrow> error + fileRecord list"
  sharedAccess_all :: "request list \<Rightarrow> nat \<Rightarrow> string \<Rightarrow> error + sharedAccess list"
  fileRecord_fetch :: "request list \<Rightarrow> pubkey \<Rightarrow> error + fileAccount"

definition ledger_getAccountInfo ::
  "env \<Rightarrow> pubkey \<Rightarrow> request list \<Rightarrow> (error + bool) \<times> request list" where
  "ledger_getAccountInfo e a log = (getAccountInfo e log a, log @ [GetAccountInfo a])"

definition ledger_rpc ::
  "env \<Rightarrow> transaction \<Rightarrow> request list \<Rightarrow> (error + string) \<times> request list" where
  "ledger_rpc e tx log = (rpc e log tx, log @ [Rpc tx])"

text \<open>The signed transactions among the requests of a log.\<close>

fun transactions :: "request list \<Rightarrow> transaction list" where
  "transactions [] = []"
| "transactions (Rpc tx # rs) = tx # transactions rs"
| "transactions (_ # rs) = transactions rs"

section \<open>Address derivation\<close>

definition userProfileSeeds :: "sdk \<Rightarrow> pubkey \<Rightarrow> buffer list" where
  "userProfileSeeds s userPubkey = [Buffer_from ''user_profile'', toBuffer s userPubkey]"

definition fileRecordSeeds :: "sdk \<Rightarrow> pubkey \<Rightarrow> string \<Rightarrow> buffer list" where
  "fileRecordSeeds s owner fname =
     [Buffer_from ''file'', toBuffer s owner, Buffer_from fname]"

definition sharedAccessSeeds :: "sdk \<Rightarrow> pubkey \<Rightarrow> pubkey \<Rightarrow> buffer list" where
  "sharedAccessSeeds s fileRecordPDA sharedWithKey =
     [Buffer_from ''shared_access'', toBuffer s fileRecordPDA, toBuffer s sharedWithKey]"

text \<open>\<open>const [pda] = PublicKey.findProgramAddressSync(seeds, PROGRAM_ID)\<close>: the address
  of the pair, or the error the derivation throws.\<close>

definition derive :: "sdk \<Rightarrow> buffer list \<Rightarrow> error + pubkey" where
  "derive s seeds =
     (case findProgramAddressSync s seeds (PROGRAM_ID s) of
        Inl err \<Rightarrow> Inl err
      | Inr (pda, bump) \<Rightarrow> Inr pda)"

definition getUserProfilePDA :: "sdk \<Rightarrow> pubkey \<Rightarrow> error + pubkey" where
  "getUserProfilePDA s userPubkey = derive s (userProfileSeeds s userPubkey)"

definition getConfigPDA :: "sdk \<Rightarrow> error + pubkey" where
  "getConfigPDA s = derive s [Buffer_from ''config'']"

definition getFileRecordPDA :: "sdk \<Rightarrow> pubkey \<Rightarrow> string \<Rightarrow> error + pubkey" where
  "getFileRecordPDA s owner fname = derive s (fileRecordSeeds s owner fname)"

definition getSharedAccessPDA :: "sdk \<Rightarrow> pubkey \<Rightarrow> pubkey \<Rightarrow> error + pubkey" where
  "getSharedAccessPDA s fileRecordPDA sharedWithKey =
     derive s (sharedAccessSeeds s fileRecordPDA sharedWithKey)"

section \<open>The hook's operations\<close>

text \<open>
  An operation takes the request log and returns what the promise settles to
  (\<open>Inl\<close> a thrown error, \<open>Inr\<close> the value) with the extended log.
\<close>

definition wallet_not_connected :: error where
  "wallet_not_connected = Error (Some ''Wallet not connected'')"

definition createUserProfile :: "env \<Rightarrow> request list \<Rightarrow> (error + string) \<times> request list" where
  "createUserProfile e log =
     (case wallet_publicKey e of
        None \<Rightarrow> (Inl wallet_not_connected, log)
      | Some pk \<Rightarrow>
          if \<not> program e then (Inl wallet_not_connected, log)
          else
            (case getUserProfilePDA (sdk e) pk of
               Inl err \<Rightarrow> (Inl err, log)
             | Inr userProfilePDA \<Rightarrow>
            (case ledger_getAccountInfo e userProfilePDA log of
               (Inl err, log1) \<Rightarrow> (Inl err, log1)
             | (Inr existing, log1) \<Rightarrow>
                 if existing then (Inr ''already-initialized'', log1)
                 else ledger_rpc e
                   \<lparr>instruction = CreateUserProfileIx,
                    accounts = [(''userProfile'', userProfilePDA), (''user'', pk),
                                (''systemProgram'', SystemProgram_programId (sdk e))]\<rparr>
                   log1)))"

definition createFile ::
  "env \<Rightarrow> string \<Rightarrow> int \<Rightarrow> int list \<Rightarrow> int \<Rightarrow> request list \<Rightarrow> (error + string) \<times> request list"
where
  "createFile e name fsize fhash chunkCount log =
     (case wallet_publicKey e of
        None \<Rightarrow> (Inl wallet_not_connected, log)
      | Some pk \<Rightarrow>
          if \<not> program e then (Inl wallet_not_connected, log)
          else
            let timestamp = Date_now e div 1000 in
            (case getFileRecordPDA (sdk e) pk name of
               Inl err \<Rightarrow> (Inl err, log)
             | Inr fileRecordPDA \<Rightarrow>
            (case getConfigPDA (sdk e) of
               Inl err \<Rightarrow> (Inl err, log)
             | Inr configPDA \<Rightarrow>
            (case getUserProfilePDA (sdk e) pk of
               Inl err \<Rightarrow> (Inl err, log)
             | Inr userProfilePDA \<Rightarrow>
            let (configInfo, log1) = ledger_getAccountInfo e configPDA log;
                (profileInfo, log2) = ledger_getAccountInfo e userProfilePDA log1
            in
            (case configInfo of
               Inl err \<Rightarrow> (Inl err, log2)
             | Inr configExists \<Rightarrow>
            (case profileInfo of
               Inl err \<Rightarrow> (Inl err, log2)
             | Inr profileExists \<Rightarrow>
            (case (if configExists then (Inr [], log2)
                   else ledger_rpc e
                     \<lparr>instruction = Initialize,
                      accounts = [(''config'', configPDA), (''authority'', pk),
                                  (''systemProgram'', SystemProgram_programId (sdk e))]\<rparr>
                     log2) of
               (Inl err, log3) \<Rightarrow> (Inl err, log3)
             | (Inr _, log3) \<Rightarrow>
            (case (if profileExists then (Inr [], log3) else createUserProfile e log3) of
               (Inl err, log4) \<Rightarrow> (Inl err, log4)
             | (Inr _, log4) \<Rightarrow>
                 ledger_rpc e
                   \<lparr>instruction = CreateFileIx name fsize fhash chunkCount timestamp,
                    accounts = [(''fileRecord'', fileRecordPDA), (''config'', configPDA),
                                (''userProfile'', userProfilePDA), (''owner'', pk),
                                (''systemProgram'', SystemProgram_programId (sdk e))]\<rparr>
                   log4))))))))"

definition registerStorage ::
  "env \<Rightarrow> string \<Rightarrow> string \<Rightarrow> int list \<Rightarrow> request list \<Rightarrow> (error + string) \<times> request list"
where
  "registerStorage e name ipfsCid merkleRoot log =
     (case wallet_publicKey e of
        None \<Rightarrow> (Inl wallet_not_connected, log)
      | Some pk \<Rightarrow>
          if \<not> program e then (Inl wallet_not_connected, log)
          else
            (case getFileRecordPDA (sdk e) pk name of
               Inl err \<Rightarrow> (Inl err, log)
             | Inr fileRecordPDA \<Rightarrow>
                 ledger_rpc e
                   \<lparr>instruction = RegisterStorageIx ipfsCid merkleRoot,
                    accounts = [(''fileRecord'', fileRecordPDA), (''owner'', pk)]\<rparr>
                   log))"

definition finalizeFile :: "env \<Rightarrow> string \<Rightarrow> request list \<Rightarrow> (error + string) \<times> request list"
where
  "finalizeFile e name log =
     (case wallet_publicKey e of
        None \<Rightarrow> (Inl wallet_not_connected, log)
      | Some pk \<Rightarrow>
          if \<not> program e then (Inl wallet_not_connected, log)
          else
            (case getFileRecordPDA (sdk e) pk name of
               Inl err \<Rightarrow> (Inl err, log)
             | Inr fileRecordPDA \<Rightarrow>
                 ledger_rpc e
                   \<lparr>instruction = FinalizeFileIx,
                    accounts = [(''fileRecord'', fileRecordPDA), (''owner'', pk)]\<rparr>
                   log))"

definition makePublic :: "env \<Rightarrow> string \<Rightarrow> request list \<Rightarrow> (error + string) \<times> request list"
where
  "makePublic e name log =
     (case wallet_publicKey e of
        None \<Rightarrow> (Inl wallet_not_connected, log)
      | Some pk \<Rightarrow>
          if \<not> program e then (Inl wallet_not_connected, log)
          else
            (case getFileRecordPDA (sdk e) pk name of
               Inl err \<Rightarrow> (Inl err, log)
             | Inr fileRecordPDA \<Rightarrow>
                 ledger_rpc e
                   \<lparr>instruction = MakePublicIx,
                    accounts = [(''fileRecord'', fileRecordPDA), (''owner'', pk)]\<rparr>
                   log))"

definition makePrivate :: "env \<Rightarrow> string \<Rightarrow> request list \<Rightarrow> (error + string) \<times> request list"
where
  "makePrivate e name log =
     (case wallet_publicKey e of
        None \<Rightarrow> (Inl wallet_not_connected, log)
      | Some pk \<Rightarrow>
          if \<not> program e then (Inl wallet_not_connected, log)
          else
            (case getFileRecordPDA (sdk e) pk name of
               Inl err \<Rightarrow> (Inl err, log)
             | Inr fileRecordPDA \<Rightarrow>
                 ledger_rpc e
                   \<lparr>instruction = MakePrivateIx,
                    accounts = [(''fileRecord'', fileRecordPDA), (''owner'', pk)]\<rparr>
                   log))"

text \<open>\<open>expiresAt ? new BN(expiresAt) : null\<close>: an absent expiry and the number 0 give null.\<close>

definition expiresAtBN :: "int option \<Rightarrow> int option" where
  "expiresAtBN exp = (case exp of None \<Rightarrow> None | Some t \<Rightarrow> if t = 0 then None else Some t)"

definition grantAccess ::
  "env \<Rightarrow> string \<Rightarrow> string \<Rightarrow> accessLevel \<Rightarrow> int option \<Rightarrow> request list
     \<Rightarrow> (error + string) \<times> request list"
where
  "grantAccess e name sharedWithAddress lvl exp log =
     (case wallet_publicKey e of
        None \<Rightarrow> (Inl wallet_not_connected, log)
      | Some pk \<Rightarrow>
          if \<not> program e then (Inl wallet_not_connected, log)
          else
            (case newPublicKey (sdk e) sharedWithAddress of
               Inl err \<Rightarrow> (Inl err, log)
             | Inr sharedWithKey \<Rightarrow>
            (case getFileRecordPDA (sdk e) pk name of
               Inl err \<Rightarrow> (Inl err, log)
             | Inr fileRecordPDA \<Rightarrow>
            (case getSharedAccessPDA (sdk e) fileRecordPDA sharedWithKey of
               Inl err \<Rightarrow> (Inl err, log)
             | Inr sharedAccessPDA \<Rightarrow>
                 ledger_rpc e
                   \<lparr>instruction = GrantAccessIx sharedWithKey lvl (expiresAtBN exp),
                    accounts = [(''sharedAccess'', sharedAccessPDA),
                                (''fileRecord'', fileRecordPDA), (''owner'', pk),
                                (''systemProgram'', SystemProgram_programId (sdk e))]\<rparr>
                   log))))"

definition revokeAccess ::
  "env \<Rightarrow> string \<Rightarrow> string \<Rightarrow> request list \<Rightarrow> (error + string) \<times> request list"
where
  "revokeAccess e name sharedWithAddress log =
     (case wallet_publicKey e of
        None \<Rightarrow> (Inl wallet_not_connected, log)
      | Some pk \<Rightarrow>
          if \<not> program e then (Inl wallet_not_connected, log)
          else
            (case newPublicKey (sdk e) sharedWithAddress of
               Inl err \<Rightarrow> (Inl err, log)
             | Inr sharedWithKey \<Rightarrow>
            (case getFileRecordPDA (sdk e) pk name of
               Inl err \<Rightarrow> (Inl err, log)
             | Inr fileRecordPDA \<Rightarrow>
            (case getSharedAccessPDA (sdk e) fileRecordPDA sharedWithKey of
               Inl err \<Rightarrow> (Inl err, log)
             | Inr sharedAccessPDA \<Rightarrow>
                 ledger_rpc e
                   \<lparr>instruction = RevokeAccessIx,
                    accounts = [(''sharedAccess'', sharedAccessPDA),
                                (''fileRecord'', fileRecordPDA), (''owner'', pk)]\<rparr>
                   log))))"

section \<open>Account scans and joined views\<close>

definition getUserFiles :: "env \<Rightarrow> request list \<Rightarrow> fileRecord list \<times> request list" where
  "getUserFiles e log =
     (case wallet_publicKey e of
        None \<Rightarrow> ([], log)
      | Some pk \<Rightarrow>
          if \<not> program e then ([], log)
          else if \<not> has_fileRecord e then ([], log)
          else
            (case fileRecord_all e log 8 (toBase58 (sdk e) pk) of
               Inl err \<Rightarrow> ([], log @ [FileRecordAll 8 (toBase58 (sdk e) pk)])
             | Inr accs \<Rightarrow> (accs, log @ [FileRecordAll 8 (toBase58 (sdk e) pk)])))"

definition getFileSharedAccess ::
  "env \<Rightarrow> string \<Rightarrow> request list \<Rightarrow> sharedAccess list \<times> request list" where
  "getFileSharedAccess e name log =
     (case wallet_publicKey e of
        None \<Rightarrow> ([], log)
      | Some pk \<Rightarrow>
          if \<not> program e then ([], log)
          else
            (case getFileRecordPDA (sdk e) pk name of
               Inl err \<Rightarrow> ([], log)
             | Inr fileRecordPDA \<Rightarrow>
                 if \<not> has_sharedAccess e then ([], log)
                 else
                   (case sharedAccess_all e log 8 (toBase58 (sdk e) fileRecordPDA) of
                      Inl err \<Rightarrow>
                        ([], log @ [SharedAccessAll 8 (toBase58 (sdk e) fileRecordPDA)])
                    | Inr accs \<Rightarrow>
                        (accs, log @ [SharedAccessAll 8 (toBase58 (sdk e) fileRecordPDA)]))))"

text \<open>
  The body mapped over the active grants: fetch the parent record; a fetch that throws
  (also the \<open>TypeError\<close> when the program has no \<open>fileRecord\<close> namespace, raised before
  anything is sent) is caught and gives \<open>file: null\<close>.
\<close>

definition withFile :: "env \<Rightarrow> sharedAccess \<Rightarrow> request list \<Rightarrow> sharedEntry \<times> request list" where
  "withFile e sa log =
     (let addr = sa_fileRecord (sa_account sa) in
      if \<not> has_fileRecord e then (\<lparr>entry_sharedAccess = sa, entry_file = None\<rparr>, log)
      else
        (case fileRecord_fetch e log addr of
           Inr fileAccount \<Rightarrow>
             (\<lparr>entry_sharedAccess = sa,
               entry_file = Some \<lparr>ref_publicKey = addr, ref_account = fileAccount\<rparr>\<rparr>,
              log @ [FileRecordFetch addr])
         | Inl err \<Rightarrow>
             (\<lparr>entry_sharedAccess = sa, entry_file = None\<rparr>, log @ [FileRecordFetch addr])))"

fun withFiles :: "env \<Rightarrow> sharedAccess list \<Rightarrow> request list \<Rightarrow> sharedEntry list \<times> request list"
where
  "withFiles e [] log = ([], log)"
| "withFiles e (sa # sas) log =
     (let (x, log1) = withFile e sa log;
          (xs, log2) = withFiles e sas log1
      in (x # xs, log2))"

definition active :: "sharedAccess list \<Rightarrow> sharedAccess list" where
  "active accs = filter (\<lambda>a. isActive (sa_account a)) accs"

definition getFilesSharedWithMe :: "env \<Rightarrow> request list \<Rightarrow> sharedEntry list \<times> request list"
where
  "getFilesSharedWithMe e log =
     (case wallet_publicKey e of
        None \<Rightarrow> ([], log)
      | Some pk \<Rightarrow>
          if \<not> program e then ([], log)
          else if \<not> has_sharedAccess e then ([], log)
          else
            (case sharedAccess_all e log 72 (toBase58 (sdk e) pk) of
               Inl err \<Rightarrow> ([], log @ [SharedAccessAll 72 (toBase58 (sdk e) pk)])
             | Inr accs \<Rightarrow>
                 withFiles e (active accs) (log @ [SharedAccessAll 72 (toBase58 (sdk e) pk)])))"

definition getFilesIShared :: "env \<Rightarrow> request list \<Rightarrow> sharedEntry list \<times> request list"
where
  "getFilesIShared e log =
     (case wallet_publicKey e of
        None \<Rightarrow> ([], log)
      | Some pk \<Rightarrow>
          if \<not> program e then ([], log)
          else if \<not> has_sharedAccess e then ([], log)
          else
            (case sharedAccess_all e log 40 (toBase58 (sdk e) pk) of
               Inl err \<Rightarrow> ([], log @ [SharedAccessAll 40 (toBase58 (sdk e) pk)])
             | Inr accs \<Rightarrow>
                 withFiles e (active accs) (log @ [SharedAccessAll 40 (toBase58 (sdk e) pk)])))"

section \<open>Notifications, timers and component state\<close>

datatype toastLevel = ToastError | ToastInfo | ToastSuccess

text \<open>
  A call of \<open>toast.error\<close>, \<open>toast.info\<close> or \<open>toast.success\<close>: title, optional
  description text, the transaction link a success description carries, and duration.
\<close>

record toast =
  level :: toastLevel
  title :: string
  description :: "string option"
  txLink :: "string option"
  duration :: "nat option"

text \<open>
  What both components own: the notifications shown, the callbacks handed to
  \<open>setTimeout\<close> with their delays, and the requests sent to the ledger. A handler
  runs against the state the previous handler left (a \<open>setState\<close> is visible to
  the next event), and pending keys are compared as the strings they are declared to be.
\<close>

record 'cb ui =
  toasts :: "toast list"
  timers :: "(nat \<times> 'cb) list"
  requests :: "request list"

text \<open>\<open>String.prototype.includes\<close>.\<close>

fun str_includes :: "string \<Rightarrow> string \<Rightarrow> bool" where
  "str_includes [] sub = (sub = [])"
| "str_includes (c # cs) sub = (take (length sub) (c # cs) = sub \<or> str_includes cs sub)"

text \<open>\<open>e?.message || fallback\<close>: a missing or empty message gives the fallback.\<close>

definition message_or :: "error \<Rightarrow> string \<Rightarrow> string" where
  "message_or err fallback =
     (case message err of None \<Rightarrow> fallback | Some m \<Rightarrow> if m = [] then fallback else m)"

definition explorer_link :: "string \<Rightarrow> string" where
  "explorer_link sig = ''https://explorer.solana.com/tx/'' @ sig @ ''?cluster=devnet''"

subsection \<open>The file list\<close>

record confirmDialog =
  dlg_open :: bool
  dlg_file :: "fileRecord option"
  dlg_newPrivacy :: bool

definition closedDialog :: confirmDialog where
  "closedDialog = \<lparr>dlg_open = False, dlg_file = None, dlg_newPrivacy = False\<rparr>"

text \<open>The two callbacks the file list schedules: refresh and release the file's
  pending entry (after a success), or refresh only (after \<open>AlreadyProcessed\<close>).\<close>

datatype fileListTimer = RefreshAndRelease string | RefreshOnly

record fileListState = "fileListTimer ui" +
  files :: "fileRecord list"
  loading :: bool
  processingFiles :: "string set"
  confirmDialog :: confirmDialog

definition fetchFiles :: "env \<Rightarrow> fileListState \<Rightarrow> fileListState" where
  "fetchFiles e st =
     (case wallet_publicKey e of
        None \<Rightarrow> st\<lparr>files := [], loading := False\<rparr>
      | Some pk \<Rightarrow>
          let (blockchainFiles, log') = getUserFiles e (requests st)
          in st\<lparr>requests := log', files := blockchainFiles, loading := False\<rparr>)"


text \<open>
  \<open>executePrivacyToggle\<close> up to its \<open>await\<close>: the dialog is closed, the file enters
  the pending set, and \<open>makePublic\<close> or \<open>makePrivate\<close> is called. The second
  component is the call in flight: the file, the direction and what the promise will
  settle to. With no file in the dialog the handler returns at once.
\<close>

definition executePrivacyToggle_start ::
  "env \<Rightarrow> fileListState \<Rightarrow> fileListState \<times> (fileRecord \<times> bool \<times> (error + string)) option"
where
  "executePrivacyToggle_start e st =
     (case dlg_file (confirmDialog st) of
        None \<Rightarrow> (st, None)
      | Some f \<Rightarrow>
          let newPrivacy = dlg_newPrivacy (confirmDialog st);
              st1 = st\<lparr>confirmDialog := closedDialog,
                       processingFiles := insert (publicKey f) (processingFiles st),
                       toasts := toasts st @
                         [\<lparr>level = ToastInfo, title = ''Updating privacy...'',
                           description = Some ''Processing blockchain transaction'',
                           txLink = None, duration = None\<rparr>]\<rparr>;
              (r, log') = (if newPrivacy then makePublic e (fileName (account f)) (requests st1)
                           else makePrivate e (fileName (account f)) (requests st1))
          in (st1\<lparr>requests := log'\<rparr>, Some (f, newPrivacy, r)))"

text \<open>The rest of \<open>executePrivacyToggle\<close>, once the awaited call has settled.\<close>

definition executePrivacyToggle_settle ::
  "fileRecord \<Rightarrow> bool \<Rightarrow> error + string \<Rightarrow> fileListState \<Rightarrow> fileListState" where
  "executePrivacyToggle_settle f newPrivacy r st =
     (case r of
        Inr txSignature \<Rightarrow>
          st\<lparr>toasts := toasts st @
               [\<lparr>level = ToastSuccess, title = ''Success!'',
                 description = Some (''File is now '' @ (if newPrivacy then ''public'' else ''private'')),
                 txLink = Some (explorer_link txSignature), duration = Some 5000\<rparr>],
             timers := timers st @ [(1500, RefreshAndRelease (publicKey f))]\<rparr>
      | Inl err \<Rightarrow>
          let st1 = st\<lparr>processingFiles := processingFiles st - {publicKey f}\<rparr> in
          if (case message err of None \<Rightarrow> False | Some m \<Rightarrow> str_includes m ''AlreadyProcessed'')
          then st1\<lparr>toasts := toasts st1 @
                 [\<lparr>level = ToastError, title = ''Transaction Already Processed'',
                   description = Some ''This transaction was already submitted. Refreshing file list...'',
                   txLink = None, duration = Some 3000\<rparr>],
                 timers := timers st1 @ [(1000, RefreshOnly)]\<rparr>
          else st1\<lparr>toasts := toasts st1 @
                 [\<lparr>level = ToastError, title = ''Transaction Failed'',
                   description = Some (message_or err ''Failed to update privacy setting''),
                   txLink = None, duration = Some 5000\<rparr>]\<rparr>)"

definition executePrivacyToggle :: "env \<Rightarrow> fileListState \<Rightarrow> fileListState" where
  "executePrivacyToggle e st =
     (case executePrivacyToggle_start e st of
        (st1, None) \<Rightarrow> st1
      | (st1, Some (f, newPrivacy, r)) \<Rightarrow> executePrivacyToggle_settle f newPrivacy r st1)"

definition runFileListTimer :: "env \<Rightarrow> fileListTimer \<Rightarrow> fileListState \<Rightarrow> fileListState" where
  "runFileListTimer e cb st =
     (case cb of
        RefreshAndRelease pk \<Rightarrow>
          (let st1 = fetchFiles e st in st1\<lparr>processingFiles := processingFiles st1 - {pk}\<rparr>)
      | RefreshOnly \<Rightarrow> fetchFiles e st)"

fun runFileListTimers :: "env \<Rightarrow> (nat \<times> fileListTimer) list \<Rightarrow> fileListState \<Rightarrow> fileListState"
where
  "runFileListTimers e [] st = st"
| "runFileListTimers e ((d, cb) # ts) st = runFileListTimers e ts (runFileListTimer e cb st)"

text \<open>All scheduled callbacks have fired.\<close>

definition fileListTimersFired :: "env \<Rightarrow> fileListState \<Rightarrow> fileListState" where
  "fileListTimersFired e st = runFileListTimers e (timers st) (st\<lparr>timers := []\<rparr>)"

subsection \<open>The shared files view\<close>

datatype sharedFilesTimer = Refresh

record sharedFilesState = "sharedFilesTimer ui" +
  sf_loading :: bool
  withMe :: "sharedEntry list"
  iShared :: "sharedEntry list"
  revokingKeys :: "string set"

definition refresh :: "env \<Rightarrow> sharedFilesState \<Rightarrow> sharedFilesState" where
  "refresh e st =
     (case wallet_publicKey e of
        None \<Rightarrow> st
      | Some pk \<Rightarrow>
          let (a, log1) = getFilesSharedWithMe e (requests st);
              (b, log2) = getFilesIShared e log1
          in st\<lparr>requests := log2, withMe := a, iShared := b, sf_loading := False\<rparr>)"


text \<open>
  \<open>handleRevoke\<close> up to its \<open>await\<close>, with the call in flight (the pending key and
  what \<open>revokeAccess\<close> will settle to) when one was made. The grantee is a decoded
  \<open>PublicKey\<close>, so \<open>sharedWith.toBase58?.()\<close> is its base58 text.
\<close>

definition handleRevoke_start ::
  "env \<Rightarrow> sharedEntry \<Rightarrow> sharedFilesState \<Rightarrow> sharedFilesState \<times> (string \<times> (error + string)) option"
where
  "handleRevoke_start e entry st =
     (case entry_file entry of
        None \<Rightarrow>
          (st\<lparr>toasts := toasts st @
              [\<lparr>level = ToastError, title = ''Cannot revoke'',
                description = Some ''Missing file metadata'', txLink = None, duration = None\<rparr>]\<rparr>,
           None)
      | Some f \<Rightarrow>
          let name = fileName (ref_account f);
              sharedWithAddress = toBase58 (sdk e) (sharedWith (sa_account (entry_sharedAccess entry)));
              key = name @ ''-'' @ sharedWithAddress
          in
          if key \<in> revokingKeys st then (st, None)
          else
            let st1 = st\<lparr>revokingKeys := insert key (revokingKeys st),
                         toasts := toasts st @
                           [\<lparr>level = ToastInfo, title = ''Revoking access...'',
                             description = None, txLink = None, duration = None\<rparr>]\<rparr>;
                (r, log') = revokeAccess e name sharedWithAddress (requests st1)
            in (st1\<lparr>requests := log'\<rparr>, Some (key, r)))"

text \<open>The rest of \<open>handleRevoke\<close>: the \<open>try\<close> or the \<open>catch\<close> branch, then \<open>finally\<close>.\<close>

definition handleRevoke_settle ::
  "string \<Rightarrow> error + string \<Rightarrow> sharedFilesState \<Rightarrow> sharedFilesState" where
  "handleRevoke_settle key r st =
     (let st1 =
        (case r of
           Inr sig \<Rightarrow>
             st\<lparr>toasts := toasts st @
                  [\<lparr>level = ToastSuccess, title = ''Access revoked'', description = None,
                    txLink = Some (explorer_link sig), duration = None\<rparr>],
                timers := timers st @ [(1200, Refresh)]\<rparr>
         | Inl err \<Rightarrow>
             st\<lparr>toasts := toasts st @
                  [\<lparr>level = ToastError, title = ''Failed to revoke'',
                    description = Some (message_or err ''Unknown error''),
                    txLink = None, duration = None\<rparr>]\<rparr>)
      in st1\<lparr>revokingKeys := revokingKeys st1 - {key}\<rparr>)"

definition handleRevoke :: "env \<Rightarrow> sharedEntry \<Rightarrow> sharedFilesState \<Rightarrow> sharedFilesState" where
  "handleRevoke e entry st =
     (case handleRevoke_start e entry st of
        (st1, None) \<Rightarrow> st1
      | (st1, Some (key, r)) \<Rightarrow> handleRevoke_settle key r st1)"

definition runSharedFilesTimer :: "env \<Rightarrow> sharedFilesTimer \<Rightarrow> sharedFilesState \<Rightarrow> sharedFilesState"
where
  "runSharedFilesTimer e cb st = (case cb of Refresh \<Rightarrow> refresh e st)"

subsection \<open>The states the file list can be in\<close>



subsection \<open>Expiry as the specification reads it\<close>

text \<open>
  The specification calls a grant expired when its \<open>expiresAt\<close> (seconds) lies before
  the time of the query. The source never compares \<open>expiresAt\<close> with the clock; the
  predicate is only used to state what the listing functions do with such grants.
\<close>

definition spec_expired :: "env \<Rightarrow> sharedAccessAccount \<Rightarrow> bool" where
  "spec_expired e acc =
     (case expiresAt acc of None \<Rightarrow> False | Some t \<Rightarrow> t < Date_now e div 1000)"

section \<open>Example environments\<close>

text \<open>
  A toy SDK: the derived address is the program id plus the total length of the seeds,
  and a seed of more than 32 bytes is refused; key 1 is Alice's wallet and key 2 is
  Bob's.
\<close>

definition ex_sdk :: sdk where
  "ex_sdk =
     \<lparr>findProgramAddressSync =
        (\<lambda>seeds pid. if list_ex (\<lambda>seed. 32 < length seed) seeds
                      then Inl (Error (Some ''Max seed length exceeded''))
                      else Inr (pid + of_nat (length (concat seeds)), 255)),
      toBuffer = (\<lambda>k. if k = 1 then ''A'' else ''B''),
      toBase58 = (\<lambda>k. if k = 1 then ''Alice'' else if k = 2 then ''Bob'' else ''Other''),
      newPublicKey = (\<lambda>s. if s = ''Alice'' then Inr 1 else if s = ''Bob'' then Inr 2
                           else Inl (Error (Some ''Invalid public key input''))),
      PROGRAM_ID = 1000,
      SystemProgram_programId = 0\<rparr>"

text \<open>No wallet connected.\<close>

definition ex_offline :: env where
  "ex_offline =
     \<lparr>sdk = ex_sdk, wallet_publicKey = None, program = False,
      has_fileRecord = True, has_sharedAccess = True, Date_now = 1700000000000,
      getAccountInfo = (\<lambda>log a. Inr False),
      rpc = (\<lambda>log tx. Inr ''sig''),
      fileRecord_all = (\<lambda>log off b. Inr []),
      sharedAccess_all = (\<lambda>log off b. Inr []),
      fileRecord_fetch = (\<lambda>log a. Inl (Error (Some ''Account does not exist'')))\<rparr>"

text \<open>
  Alice connected, to a ledger on which her profile account exists once a
  \<open>createUserProfile\<close> transaction has been sent.
\<close>

definition ex_online :: env where
  "ex_online =
     \<lparr>sdk = ex_sdk, wallet_publicKey = Some 1, program = True,
      has_fileRecord = True, has_sharedAccess = True, Date_now = 1700000000000,
      getAccountInfo =
        (\<lambda>log a. Inr (CreateUserProfileIx \<in> set (map instruction (transactions log)))),
      rpc = (\<lambda>log tx. Inr ''sig''),
      fileRecord_all = (\<lambda>log off b. Inr []),
      sharedAccess_all = (\<lambda>log off b. Inr []),
      fileRecord_fetch = (\<lambda>log a. Inl (Error (Some ''Account does not exist'')))\<rparr>"

definition ex_profile_tx :: transaction where
  "ex_profile_tx =
     \<lparr>instruction = CreateUserProfileIx,
      accounts = [(''userProfile'', 1013), (''user'', 1), (''systemProgram'', 0)]\<rparr>"

text \<open>
  Alice's file \<open>report.pdf\<close> at address 1015, her grant to Bob that expired in 2020
  (the clock reads 2023) with its active flag still set, and a revoked grant.
\<close>

definition ex_file_account :: fileAccount where
  "ex_file_account =
     \<lparr>fileName = ''report.pdf'', fileSize = 2048, primaryStorage = ''bafy'',
      status = Active, isPublic = False, createdAt = 1599990000\<rparr>"

definition ex_grant :: sharedAccess where
  "ex_grant =
     \<lparr>sa_publicKey = 1015,
      sa_account = \<lparr>sa_fileRecord = 1015, sa_owner = 1, sharedWith = 2, accessLevel = Read,
                    expiresAt = Some 1600000000, isActive = True\<rparr>\<rparr>"

definition ex_revoked :: sharedAccess where
  "ex_revoked =
     \<lparr>sa_publicKey = 1016,
      sa_account = \<lparr>sa_fileRecord = 1016, sa_owner = 1, sharedWith = 2, accessLevel = Write,
                    expiresAt = None, isActive = False\<rparr>\<rparr>"

text \<open>
  A ledger holding both grants, seen from the given wallet; the parent record can be
  fetched or not.
\<close>

definition ex_ledger :: "pubkey \<Rightarrow> bool \<Rightarrow> env" where
  "ex_ledger wallet parentOk =
     \<lparr>sdk = ex_sdk, wallet_publicKey = Some wallet, program = True,
      has_fileRecord = True, has_sharedAccess = True, Date_now = 1700000000000,
      getAccountInfo = (\<lambda>log a. Inr True),
      rpc = (\<lambda>log tx. Inr ''sig''),
      fileRecord_all = (\<lambda>log off b. Inr []),
      sharedAccess_all =
        (\<lambda>log off b. if (off = 72 \<and> b = ''Bob'') \<or> (off = 40 \<and> b = ''Alice'')
                       then Inr [ex_revoked, ex_grant] else Inr []),
      fileRecord_fetch =
        (\<lambda>log a. if parentOk \<and> a = 1015 then Inr ex_file_account
                  else Inl (Error (Some ''Account does not exist'')))\<rparr>"

text \<open>The same ledger rejecting every transaction as already processed.\<close>

definition ex_rejecting :: env where
  "ex_rejecting =
     (ex_ledger 1 True)
       \<lparr>rpc := (\<lambda>log tx. Inl (Error (Some ''Transaction failed: AlreadyProcessed'')))\<rparr>"

definition ex_entry :: sharedEntry where
  "ex_entry =
     \<lparr>entry_sharedAccess = ex_grant,
      entry_file = Some \<lparr>ref_publicKey = 1015, ref_account = ex_file_account\<rparr>\<rparr>"

definition ex_entry_null :: sharedEntry where
  "ex_entry_null = \<lparr>entry_sharedAccess = ex_grant, entry_file = None\<rparr>"

definition ex_shared :: "string set \<Rightarrow> sharedFilesState" where
  "ex_shared pending =
     \<lparr>toasts = [], timers = [], requests = [], sf_loading = False, withMe = [],
      iShared = [ex_entry], revokingKeys = pending\<rparr>"

definition ex_file :: fileRecord where
  "ex_file = \<lparr>publicKey = ''FileKey1'', account = ex_file_account\<rparr>"

definition ex_dialog :: confirmDialog where
  "ex_dialog = \<lparr>dlg_open = True, dlg_file = Some ex_file, dlg_newPrivacy = True\<rparr>"

definition ex_list :: "string set \<Rightarrow> confirmDialog \<Rightarrow> fileListState" where
  "ex_list pending dlg =
     \<lparr>toasts = [], timers = [], requests = [], files = [ex_file], loading = False,
      processingFiles = pending, confirmDialog = dlg\<rparr>"

section \<open>Properties\<close>

subsection \<open>Auxiliary facts\<close>

lemma transactions_append: "transactions (xs @ ys) = transactions xs @ transactions ys"
  by (induction xs rule: transactions.induct) auto

lemma ex_sdk_simps [simp]:
  "getUserProfilePDA ex_sdk 1 = Inr 1013"
  "getFileRecordPDA ex_sdk 1 ''report.pdf'' = Inr 1015"
  "getSharedAccessPDA ex_sdk 1015 2 = Inr 1015"
  "SystemProgram_programId ex_sdk = 0"
  "toBase58 ex_sdk 1 = ''Alice''"
  "toBase58 ex_sdk 2 = ''Bob''"
  "newPublicKey ex_sdk ''Bob'' = Inr 2"
  by (simp_all add: getUserProfilePDA_def userProfileSeeds_def getFileRecordPDA_def
       fileRecordSeeds_def getSharedAccessPDA_def sharedAccessSeeds_def derive_def ex_sdk_def
       Buffer_from_def)

lemma ex_ledger_simps [simp]:
  "sdk (ex_ledger w ok) = ex_sdk"
  "wallet_publicKey (ex_ledger w ok) = Some w"
  "program (ex_ledger w ok)"
  "has_sharedAccess (ex_ledger w ok)"
  "has_fileRecord (ex_ledger w ok)"
  "Date_now (ex_ledger w ok) = 1700000000000"
  "sharedAccess_all (ex_ledger w ok) log 72 ''Bob'' = Inr [ex_revoked, ex_grant]"
  "sharedAccess_all (ex_ledger w ok) log 40 ''Alice'' = Inr [ex_revoked, ex_grant]"
  "fileRecord_fetch (ex_ledger w True) log 1015 = Inr ex_file_account"
  "fileRecord_fetch (ex_ledger w False) log a = Inl (Error (Some ''Account does not exist''))"
  by (simp_all add: ex_ledger_def)

lemma ex_grant_simps [simp]:
  "isActive (sa_account ex_grant)"
  "\<not> isActive (sa_account ex_revoked)"
  "sa_fileRecord (sa_account ex_grant) = 1015"
  "expiresAt (sa_account ex_grant) = Some 1600000000"
  by (simp_all add: ex_grant_def ex_revoked_def)

text \<open>The join keeps every grant it is given, in order.\<close>

lemma withFile_sharedAccess: "entry_sharedAccess (fst (withFile e sa log)) = sa"
  by (simp add: withFile_def Let_def split: sum.splits)

lemma withFiles_sharedAccess: "map entry_sharedAccess (fst (withFiles e sas log)) = sas"
proof (induction sas arbitrary: log)
  case Nil
  then show ?case by simp
next
  case (Cons a sas)
  obtain x log1 where x: "withFile e a log = (x, log1)" by (cases "withFile e a log")
  obtain xs log2 where xs: "withFiles e sas log1 = (xs, log2)" by (cases "withFiles e sas log1")
  have "entry_sharedAccess x = a" using withFile_sharedAccess[of e a log] x by simp
  moreover have "map entry_sharedAccess xs = sas" using Cons.IH[of log1] xs by simp
  ultimately show ?case using x xs by simp
qed

lemma withFile_failed:
  assumes "\<not> has_fileRecord e
             \<or> (\<forall>log'. isl (fileRecord_fetch e log' (sa_fileRecord (sa_account sa))))"
  shows "fst (withFile e sa log) = \<lparr>entry_sharedAccess = sa, entry_file = None\<rparr>"
proof (cases "has_fileRecord e")
  case False
  then show ?thesis by (simp add: withFile_def Let_def)
next
  case True
  then have "isl (fileRecord_fetch e log (sa_fileRecord (sa_account sa)))"
    using assms by blast
  then show ?thesis
    by (cases "fileRecord_fetch e log (sa_fileRecord (sa_account sa))")
       (simp_all add: withFile_def Let_def)
qed

lemma withFiles_failed:
  assumes "sa \<in> set sas"
    and "\<not> has_fileRecord e
           \<or> (\<forall>log'. isl (fileRecord_fetch e log' (sa_fileRecord (sa_account sa))))"
  shows "\<lparr>entry_sharedAccess = sa, entry_file = None\<rparr> \<in> set (fst (withFiles e sas log))"
  using assms(1)
proof (induction sas arbitrary: log)
  case Nil
  then show ?case by simp
next
  case (Cons a sas)
  obtain x log1 where x: "withFile e a log = (x, log1)" by (cases "withFile e a log")
  obtain xs log2 where xs: "withFiles e sas log1 = (xs, log2)" by (cases "withFiles e sas log1")
  show ?case
  proof (cases "sa = a")
    case True
    then have "x = \<lparr>entry_sharedAccess = sa, entry_file = None\<rparr>"
      using withFile_failed[OF assms(2), of log] x by simp
    then show ?thesis using x xs by simp
  next
    case False
    then have "sa \<in> set sas" using Cons.prems by simp
    then have "\<lparr>entry_sharedAccess = sa, entry_file = None\<rparr> \<in> set (fst (withFiles e sas log1))"
      by (rule Cons.IH)
    then show ?thesis using x xs by simp
  qed
qed

text \<open>Fetching the file list touches neither the pending set nor the dialog.\<close>

lemma fetchFiles_keeps [simp]:
  "processingFiles (fetchFiles e st) = processingFiles st"
  "confirmDialog (fetchFiles e st) = confirmDialog st"
  "toasts (fetchFiles e st) = toasts st"
  "timers (fetchFiles e st) = timers st"
  by (simp_all add: fetchFiles_def split: option.splits prod.splits)

lemma runFileListTimer_pending:
  "processingFiles (runFileListTimer e cb st) =
     (case cb of RefreshAndRelease pk \<Rightarrow> processingFiles st - {pk}
              | RefreshOnly \<Rightarrow> processingFiles st)"
  by (simp add: runFileListTimer_def Let_def split: fileListTimer.splits)

lemma runFileListTimer_dialog [simp]:
  "confirmDialog (runFileListTimer e cb st) = confirmDialog st"
  by (simp add: runFileListTimer_def Let_def split: fileListTimer.splits)

text \<open>Timers never add a pending entry, and a release timer removes its own.\<close>

lemma runFileListTimers_subset:
  "processingFiles (runFileListTimers e ts st) \<subseteq> processingFiles st"
proof (induction ts arbitrary: st)
  case Nil
  then show ?case by simp
next
  case (Cons t ts)
  obtain d cb where t: "t = (d, cb)" by (cases t)
  have "processingFiles (runFileListTimers e ts (runFileListTimer e cb st))
          \<subseteq> processingFiles (runFileListTimer e cb st)"
    by (rule Cons.IH)
  also have "\<dots> \<subseteq> processingFiles st"
    by (auto simp: runFileListTimer_pending split: fileListTimer.splits)
  finally show ?case by (simp add: t)
qed

lemma runFileListTimers_release:
  assumes "(d, RefreshAndRelease pk) \<in> set ts"
  shows "pk \<notin> processingFiles (runFileListTimers e ts st)"
  using assms
proof (induction ts arbitrary: st)
  case Nil
  then show ?case by simp
next
  case (Cons t ts)
  obtain d' cb where t: "t = (d', cb)" by (cases t)
  show ?case
  proof (cases "t = (d, RefreshAndRelease pk)")
    case True
    have "pk \<notin> processingFiles (runFileListTimer e (RefreshAndRelease pk) st)"
      by (simp add: runFileListTimer_pending)
    then have "pk \<notin> processingFiles
        (runFileListTimers e ts (runFileListTimer e (RefreshAndRelease pk) st))"
      using runFileListTimers_subset by blast
    then show ?thesis using True by simp
  next
    case False
    then have "(d, RefreshAndRelease pk) \<in> set ts" using Cons.prems by simp
    then show ?thesis using Cons.IH t by simp
  qed
qed

lemma fileListTimersFired_subset:
  "processingFiles (fileListTimersFired e st) \<subseteq> processingFiles st"
  using runFileListTimers_subset[of e "timers st" "st\<lparr>timers := []\<rparr>"]
  by (simp add: fileListTimersFired_def)

lemma settle_error_pending:
  "processingFiles (executePrivacyToggle_settle f p (Inl err) st)
     = processingFiles st - {publicKey f}"
  by (simp add: executePrivacyToggle_settle_def Let_def)

lemma settle_success:
  "timers (executePrivacyToggle_settle f p (Inr sig) st)
     = timers st @ [(1500, RefreshAndRelease (publicKey f))]"
  "processingFiles (executePrivacyToggle_settle f p (Inr sig) st) = processingFiles st"
  by (simp_all add: executePrivacyToggle_settle_def)

lemma settle_then_timers:
  "publicKey f \<notin> processingFiles (fileListTimersFired e (executePrivacyToggle_settle f p r st))"
proof (cases r)
  case (Inl err)
  then show ?thesis
    using fileListTimersFired_subset[of e "executePrivacyToggle_settle f p r st"]
    by (auto simp: settle_error_pending)
next
  case (Inr sig)
  have "(1500, RefreshAndRelease (publicKey f))
          \<in> set (timers (executePrivacyToggle_settle f p r st))"
    by (simp add: Inr settle_success)
  then show ?thesis
    unfolding fileListTimersFired_def by (rule runFileListTimers_release)
qed

lemma start_Some:
  assumes "executePrivacyToggle_start e st = (st1, Some (f, p, r))"
  shows "dlg_file (confirmDialog st) = Some f"
    and "publicKey f \<in> processingFiles st1"
    and "p = dlg_newPrivacy (confirmDialog st)"
  using assms
  by (auto simp: executePrivacyToggle_start_def Let_def split: option.splits prod.splits)

lemma start_of_dialog:
  assumes "dlg_file (confirmDialog st) = Some f"
  shows "\<exists>st1 p r. executePrivacyToggle_start e st = (st1, Some (f, p, r))"
  using assms
  by (auto simp: executePrivacyToggle_start_def Let_def split: prod.splits)

lemma revoke_settle_pending:
  "revokingKeys (handleRevoke_settle key r st) = revokingKeys st - {key}"
  by (simp add: handleRevoke_settle_def Let_def split: sum.splits)

lemma revoke_start_Some:
  assumes "handleRevoke_start e entry st = (st1, Some (key, r))"
  shows "key \<in> revokingKeys st1" and "key \<notin> revokingKeys st"
  using assms
  by (auto simp: handleRevoke_start_def Let_def split: option.splits prod.splits if_splits)




subsection \<open>Listing shared grants\<close>

text \<open>
  An active grant that expired three years before the query is listed in both views:
  Bob sees it under "shared with me", Alice under "shared by me".
\<close>

theorem expired_active_grant_listed:
  "spec_expired (ex_ledger 2 True) (sa_account ex_grant)
   \<and> isActive (sa_account ex_grant)
   \<and> fst (getFilesSharedWithMe (ex_ledger 2 True) [])
       = [\<lparr>entry_sharedAccess = ex_grant,
           entry_file = Some \<lparr>ref_publicKey = 1015, ref_account = ex_file_account\<rparr>\<rparr>]
   \<and> fst (getFilesIShared (ex_ledger 1 True) [])
       = [\<lparr>entry_sharedAccess = ex_grant,
           entry_file = Some \<lparr>ref_publicKey = 1015, ref_account = ex_file_account\<rparr>\<rparr>]"
  by (simp add: spec_expired_def getFilesSharedWithMe_def getFilesIShared_def active_def
        withFile_def Let_def)

text \<open>
  C1 (amended). With a wallet connected, the grants returned by \<open>getFilesSharedWithMe\<close>
  (scan on \<open>shared_with\<close>, offset 72) and by \<open>getFilesIShared\<close> (scan on \<open>owner\<close>,
  offset 40) are exactly the grants of the scan whose active flag is set, in the order
  of the scan. The expiry timestamp plays no part: every active grant of the scan is
  listed, expired or not.
\<close>

theorem shared_views_list_active_grants:
  assumes "wallet_publicKey e = Some pk" and "program e" and "has_sharedAccess e"
  shows "(sharedAccess_all e log 72 (toBase58 (sdk e) pk) = Inr accs \<longrightarrow>
            map entry_sharedAccess (fst (getFilesSharedWithMe e log))
              = filter (\<lambda>a. isActive (sa_account a)) accs
            \<and> (sa \<in> set accs \<and> isActive (sa_account sa) \<longrightarrow>
                 sa \<in> entry_sharedAccess ` set (fst (getFilesSharedWithMe e log))))
       \<and> (sharedAccess_all e log 40 (toBase58 (sdk e) pk) = Inr accs \<longrightarrow>
            map entry_sharedAccess (fst (getFilesIShared e log))
              = filter (\<lambda>a. isActive (sa_account a)) accs
            \<and> (sa \<in> set accs \<and> isActive (sa_account sa) \<longrightarrow>
                 sa \<in> entry_sharedAccess ` set (fst (getFilesIShared e log))))"
proof -
  have m: "\<And>l. entry_sharedAccess ` set (fst (withFiles e (active accs) l)) = set (active accs)"
    using withFiles_sharedAccess[of e "active accs"] by (metis set_map)
  show ?thesis
    using assms
    by (simp add: getFilesSharedWithMe_def getFilesIShared_def withFiles_sharedAccess m)
       (simp add: active_def)
qed

theorem shared_views_list_active_grants_witness:
  "sharedAccess_all (ex_ledger 2 True) [] 72 ''Bob'' = Inr [ex_revoked, ex_grant]
   \<and> map entry_sharedAccess (fst (getFilesSharedWithMe (ex_ledger 2 True) [])) = [ex_grant]
   \<and> map entry_sharedAccess (fst (getFilesIShared (ex_ledger 1 True) [])) = [ex_grant]"
  using shared_views_list_active_grants
          [where e = "ex_ledger 2 True" and pk = 2 and log = "[]"
             and accs = "[ex_revoked, ex_grant]" and sa = ex_grant]
        shared_views_list_active_grants
          [where e = "ex_ledger 1 True" and pk = 1 and log = "[]"
             and accs = "[ex_revoked, ex_grant]" and sa = ex_grant]
  by simp

subsection \<open>A parent record that cannot be fetched\<close>

text \<open>
  C3. Let the scan of either view return \<open>accs\<close>, and let \<open>sa\<close> be an active grant
  among them whose parent record cannot be fetched (the fetch throws, whenever it is
  made, or the program has no \<open>fileRecord\<close> namespace to fetch from). Then the view
  contains the entry of \<open>sa\<close> with \<open>file = null\<close>, and the view still lists every
  active grant of the scan, one entry each: no grant is omitted and the list is not
  discarded.
\<close>

theorem failed_parent_fetch_keeps_grant:
  assumes "wallet_publicKey e = Some pk" and "program e" and "has_sharedAccess e"
    and "sa \<in> set accs" and "isActive (sa_account sa)"
    and "\<not> has_fileRecord e
           \<or> (\<forall>log'. isl (fileRecord_fetch e log' (sa_fileRecord (sa_account sa))))"
  shows "(sharedAccess_all e log 72 (toBase58 (sdk e) pk) = Inr accs \<longrightarrow>
            \<lparr>entry_sharedAccess = sa, entry_file = None\<rparr>
              \<in> set (fst (getFilesSharedWithMe e log))
            \<and> map entry_sharedAccess (fst (getFilesSharedWithMe e log)) = active accs)
       \<and> (sharedAccess_all e log 40 (toBase58 (sdk e) pk) = Inr accs \<longrightarrow>
            \<lparr>entry_sharedAccess = sa, entry_file = None\<rparr>
              \<in> set (fst (getFilesIShared e log))
            \<and> map entry_sharedAccess (fst (getFilesIShared e log)) = active accs)"
proof -
  have "sa \<in> set (active accs)" using assms(4,5) by (simp add: active_def)
  then have "\<And>l. \<lparr>entry_sharedAccess = sa, entry_file = None\<rparr>
                 \<in> set (fst (withFiles e (active accs) l))"
    using assms(6) by (simp add: withFiles_failed)
  then show ?thesis
    using assms(1-3)
    by (simp add: getFilesSharedWithMe_def getFilesIShared_def withFiles_sharedAccess)
qed

theorem failed_parent_fetch_keeps_grant_witness:
  "fileRecord_fetch (ex_ledger 2 False) [] 1015 = Inl (Error (Some ''Account does not exist''))
   \<and> fst (getFilesSharedWithMe (ex_ledger 2 False) [])
       = [\<lparr>entry_sharedAccess = ex_grant, entry_file = None\<rparr>]
   \<and> fst (getFilesIShared (ex_ledger 1 False) [])
       = [\<lparr>entry_sharedAccess = ex_grant, entry_file = None\<rparr>]"
  using failed_parent_fetch_keeps_grant
          [where e = "ex_ledger 2 False" and pk = 2 and sa = ex_grant
             and accs = "[ex_revoked, ex_grant]" and log = "[]"]
        failed_parent_fetch_keeps_grant
          [where e = "ex_ledger 1 False" and pk = 1 and sa = ex_grant
             and accs = "[ex_revoked, ex_grant]" and log = "[]"]
  by (simp add: active_def getFilesSharedWithMe_def getFilesIShared_def withFile_def Let_def)

subsection \<open>Duplicate requests on a pending target\<close>




subsection \<open>Derived addresses\<close>




subsection \<open>A privacy toggle rejected as already processed\<close>

text \<open>
  Confirming a toggle against a ledger that answers \<open>AlreadyProcessed\<close> shows, after
  the progress notification, an error notification, and schedules the refresh.
\<close>

theorem already_processed_shows_error_toast:
  "map level (toasts (executePrivacyToggle ex_rejecting (ex_list {} ex_dialog)))
     = [ToastInfo, ToastError]
   \<and> map title (toasts (executePrivacyToggle ex_rejecting (ex_list {} ex_dialog)))
     = [''Updating privacy...'', ''Transaction Already Processed'']
   \<and> timers (executePrivacyToggle ex_rejecting (ex_list {} ex_dialog)) = [(1000, RefreshOnly)]"
  by (simp add: executePrivacyToggle_def executePrivacyToggle_start_def
        executePrivacyToggle_settle_def ex_rejecting_def ex_list_def ex_dialog_def ex_file_def
        ex_file_account_def makePublic_def ledger_rpc_def Let_def)

text \<open>
  C6 (amended). When the awaited call of a privacy toggle fails with an error whose
  message contains \<open>AlreadyProcessed\<close>, the handler catches it: it releases the
  file's pending entry, shows the error-level notification
  \<open>Transaction Already Processed\<close> (in place of \<open>Transaction Failed\<close>) and schedules,
  1000 ms later, a callback that fetches the file list. Nothing else changes.
\<close>

theorem already_processed_handling:
  assumes "message err = Some m" and "str_includes m ''AlreadyProcessed''"
  shows "executePrivacyToggle_settle f p (Inl err) st =
           st\<lparr>processingFiles := processingFiles st - {publicKey f},
              toasts := toasts st @
                [\<lparr>level = ToastError, title = ''Transaction Already Processed'',
                  description =
                    Some ''This transaction was already submitted. Refreshing file list...'',
                  txLink = None, duration = Some 3000\<rparr>],
              timers := timers st @ [(1000, RefreshOnly)]\<rparr>
         \<and> runFileListTimer e RefreshOnly st' = fetchFiles e st'"
  using assms by (simp add: executePrivacyToggle_settle_def Let_def runFileListTimer_def)

theorem already_processed_handling_witness:
  "str_includes ''Transaction failed: AlreadyProcessed'' ''AlreadyProcessed''
   \<and> executePrivacyToggle_settle ex_file True
        (Inl (Error (Some ''Transaction failed: AlreadyProcessed'')))
        (ex_list {''FileKey1''} closedDialog)
      = \<lparr>toasts = [\<lparr>level = ToastError, title = ''Transaction Already Processed'',
                    description =
                      Some ''This transaction was already submitted. Refreshing file list...'',
                    txLink = None, duration = Some 3000\<rparr>],
         timers = [(1000, RefreshOnly)], requests = [], files = [ex_file], loading = False,
         processingFiles = {}, confirmDialog = closedDialog\<rparr>"
  using already_processed_handling
          [where err = "Error (Some ''Transaction failed: AlreadyProcessed'')"
             and m = "''Transaction failed: AlreadyProcessed''"
             and f = ex_file and p = True and st = "ex_list {''FileKey1''} closedDialog"
             and e = "ex_ledger 1 True" and st' = "ex_list {} closedDialog"]
  by (simp add: ex_list_def ex_file_def)

subsection \<open>Mutating operations without a wallet\<close>

text \<open>
  C7. When \<open>program\<close> is null or \<open>wallet.publicKey\<close> is absent, each of the eight
  mutating operations throws the error with message \<open>Wallet not connected\<close>, and the
  request log is returned as it was: nothing is read from or sent to the ledger.
\<close>

theorem mutations_need_wallet:
  assumes "\<not> program e \<or> wallet_publicKey e = None"
  shows "createUserProfile e log = (Inl (Error (Some ''Wallet not connected'')), log)
       \<and> createFile e name fsize fhash chunkCount log
           = (Inl (Error (Some ''Wallet not connected'')), log)
       \<and> registerStorage e name cid root log = (Inl (Error (Some ''Wallet not connected'')), log)
       \<and> finalizeFile e name log = (Inl (Error (Some ''Wallet not connected'')), log)
       \<and> makePublic e name log = (Inl (Error (Some ''Wallet not connected'')), log)
       \<and> makePrivate e name log = (Inl (Error (Some ''Wallet not connected'')), log)
       \<and> grantAccess e name addr lvl exp log = (Inl (Error (Some ''Wallet not connected'')), log)
       \<and> revokeAccess e name addr log = (Inl (Error (Some ''Wallet not connected'')), log)"
  using assms
  by (cases "wallet_publicKey e")
     (simp_all add: createUserProfile_def createFile_def registerStorage_def finalizeFile_def
        makePublic_def makePrivate_def grantAccess_def revokeAccess_def wallet_not_connected_def)

theorem mutations_need_wallet_witness:
  "wallet_publicKey ex_offline = None
   \<and> createUserProfile ex_offline [] = (Inl (Error (Some ''Wallet not connected'')), [])
   \<and> createFile ex_offline ''report.pdf'' 2048 [1, 2] 4 []
       = (Inl (Error (Some ''Wallet not connected'')), [])
   \<and> makePublic ex_offline ''report.pdf'' [] = (Inl (Error (Some ''Wallet not connected'')), [])
   \<and> grantAccess ex_offline ''report.pdf'' ''Bob'' Read None []
       = (Inl (Error (Some ''Wallet not connected'')), [])
   \<and> revokeAccess ex_offline ''report.pdf'' ''Bob'' []
       = (Inl (Error (Some ''Wallet not connected'')), [])"
  using mutations_need_wallet
          [where e = ex_offline and log = "[]" and name = "''report.pdf''" and fsize = 2048
             and fhash = "[1, 2]" and chunkCount = 4 and cid = "''bafy''" and root = "[]"
             and addr = "''Bob''" and lvl = Read and exp = None]
  by (simp add: ex_offline_def)

subsection \<open>Releasing the pending entry\<close>

text \<open>
  C8. When the privacy-toggle handler submits a call for a file, the file's key is in
  the pending set. Whatever state the component is in when the call settles, an error
  removes the key at once, and in every case the key is gone once the timers the
  handler scheduled have fired (a success releases it through its 1500 ms timer). When
  the revoke handler submits a call, its key is in the pending set, and settling the
  call, with a signature or with an error, removes it. So after either handler has
  run to completion its target is not pending.
\<close>

theorem pending_released_on_every_path:
  "(executePrivacyToggle_start e st = (st1, Some (f, p, r)) \<longrightarrow>
      publicKey f \<in> processingFiles st1
      \<and> publicKey f \<notin> processingFiles (executePrivacyToggle_settle f p (Inl err) st2)
      \<and> publicKey f \<notin> processingFiles
           (fileListTimersFired e2 (executePrivacyToggle_settle f p r2 st2)))
   \<and> (dlg_file (confirmDialog st) = Some f \<longrightarrow>
      publicKey f \<notin> processingFiles (fileListTimersFired e2 (executePrivacyToggle e st)))
   \<and> (handleRevoke_start e entry sst = (sst1, Some (key, rr)) \<longrightarrow>
      key \<in> revokingKeys sst1
      \<and> key \<notin> revokingKeys (handleRevoke_settle key rr2 sst2)
      \<and> key \<notin> revokingKeys (handleRevoke e entry sst))"
proof -
  have whole: "publicKey f \<notin> processingFiles (fileListTimersFired e2 (executePrivacyToggle e st))"
    if dlg: "dlg_file (confirmDialog st) = Some f"
  proof -
    obtain st1' p' r' where "executePrivacyToggle_start e st = (st1', Some (f, p', r'))"
      using start_of_dialog[OF dlg] by blast
    then show ?thesis by (simp add: executePrivacyToggle_def settle_then_timers)
  qed
  have revoke: "key \<notin> revokingKeys (handleRevoke e entry sst)"
    if started: "handleRevoke_start e entry sst = (sst1, Some (key, rr))"
    using started by (simp add: handleRevoke_def revoke_settle_pending)
  show ?thesis
    using whole revoke
    by (auto simp: settle_then_timers settle_error_pending revoke_settle_pending
          dest: start_Some(2) revoke_start_Some(1))
qed

theorem pending_released_on_every_path_witness:
  "fst (executePrivacyToggle_start (ex_ledger 1 True) (ex_list {} ex_dialog))
     = \<lparr>toasts = [\<lparr>level = ToastInfo, title = ''Updating privacy...'',
                   description = Some ''Processing blockchain transaction'',
                   txLink = None, duration = None\<rparr>],
        timers = [],
        requests = [Rpc \<lparr>instruction = MakePublicIx,
                         accounts = [(''fileRecord'', 1015), (''owner'', 1)]\<rparr>],
        files = [ex_file], loading = False,
        processingFiles = {''FileKey1''}, confirmDialog = closedDialog\<rparr>
   \<and> processingFiles (executePrivacyToggle (ex_ledger 1 True) (ex_list {} ex_dialog))
       = {''FileKey1''}
   \<and> processingFiles (fileListTimersFired (ex_ledger 1 True)
        (executePrivacyToggle (ex_ledger 1 True) (ex_list {} ex_dialog))) = {}
   \<and> processingFiles (executePrivacyToggle ex_rejecting (ex_list {} ex_dialog)) = {}
   \<and> revokingKeys (fst (handleRevoke_start (ex_ledger 1 True) ex_entry (ex_shared {})))
       = {''report.pdf-Bob''}
   \<and> revokingKeys (handleRevoke (ex_ledger 1 True) ex_entry (ex_shared {})) = {}"
  using pending_released_on_every_path
          [where e = "ex_ledger 1 True" and st = "ex_list {} ex_dialog"
             and ?st1.0 = "fst (executePrivacyToggle_start (ex_ledger 1 True)
                                 (ex_list {} ex_dialog))"
             and f = ex_file and p = True and r = "Inr ''sig''"
             and err = "Error (Some ''Transaction failed: AlreadyProcessed'')"
             and ?st2.0 = "fst (executePrivacyToggle_start (ex_ledger 1 True)
                                 (ex_list {} ex_dialog))"
             and ?e2.0 = "ex_ledger 1 True" and ?r2.0 = "Inr ''sig''"
             and entry = ex_entry and sst = "ex_shared {}"
             and ?sst1.0 = "fst (handleRevoke_start (ex_ledger 1 True) ex_entry (ex_shared {}))"
             and key = "''report.pdf-Bob''" and rr = "Inr ''sig''" and ?rr2.0 = "Inr ''sig''"
             and ?sst2.0 = "fst (handleRevoke_start (ex_ledger 1 True) ex_entry (ex_shared {}))"]
  by (simp add: executePrivacyToggle_def executePrivacyToggle_start_def
        executePrivacyToggle_settle_def ex_rejecting_def ex_list_def ex_dialog_def ex_file_def
        ex_file_account_def makePublic_def ledger_rpc_def Let_def closedDialog_def
        fileListTimersFired_def runFileListTimer_def fetchFiles_def getUserFiles_def
        handleRevoke_def handleRevoke_start_def handleRevoke_settle_def revokeAccess_def
        ex_entry_def ex_shared_def ex_grant_def ex_ledger_def)

subsection \<open>Creating the user profile\<close>

text \<open>
  C9. With a wallet connected and \<open>pda\<close> the derived profile address,
  \<open>createUserProfile\<close> reads the account at \<open>pda\<close>. If it exists, the call returns
  \<open>already-initialized\<close> and sends no transaction; whenever the call does send a
  transaction, the read reported no account, and the one transaction sent is
  \<open>createUserProfile\<close> for that address. A second call, made once the ledger shows
  the account, therefore changes nothing.
\<close>

theorem createUserProfile_existing_account:
  assumes "wallet_publicKey e = Some pk" and "program e"
    and "getUserProfilePDA (sdk e) pk = Inr pda"
  shows "(getAccountInfo e log pda = Inr True \<longrightarrow>
            createUserProfile e log = (Inr ''already-initialized'', log @ [GetAccountInfo pda])
            \<and> transactions (snd (createUserProfile e log)) = transactions log)
       \<and> (transactions (snd (createUserProfile e log)) \<noteq> transactions log \<longrightarrow>
            getAccountInfo e log pda = Inr False
            \<and> transactions (snd (createUserProfile e log)) = transactions log @
                [\<lparr>instruction = CreateUserProfileIx,
                  accounts = [(''userProfile'', pda), (''user'', pk),
                              (''systemProgram'', SystemProgram_programId (sdk e))]\<rparr>])"
  using assms
  by (cases "getAccountInfo e log pda")
     (auto simp: createUserProfile_def ledger_getAccountInfo_def ledger_rpc_def
        transactions_append)

theorem createUserProfile_existing_account_witness:
  "getUserProfilePDA (sdk ex_online) 1 = Inr 1013
   \<and> createUserProfile ex_online [] = (Inr ''sig'', [GetAccountInfo 1013, Rpc ex_profile_tx])
   \<and> createUserProfile ex_online [GetAccountInfo 1013, Rpc ex_profile_tx]
       = (Inr ''already-initialized'',
          [GetAccountInfo 1013, Rpc ex_profile_tx, GetAccountInfo 1013])
   \<and> transactions (snd (createUserProfile ex_online [GetAccountInfo 1013, Rpc ex_profile_tx]))
       = [ex_profile_tx]"
  using createUserProfile_existing_account
          [where e = ex_online and pk = 1 and pda = 1013 and log = "[]"]
        createUserProfile_existing_account
          [where e = ex_online and pk = 1 and pda = 1013
             and log = "[GetAccountInfo 1013, Rpc ex_profile_tx]"]
  by (simp add: ex_online_def ex_profile_tx_def createUserProfile_def
        ledger_getAccountInfo_def ledger_rpc_def)

subsection \<open>Revoking an entry without its file\<close>

text \<open>
  C10. For an entry whose \<open>file\<close> is null, \<open>handleRevoke\<close> only adds the error
  notification \<open>Cannot revoke\<close> (\<open>Missing file metadata\<close>): no request is sent, so no
  \<open>revokeAccess\<close> transaction, and the pending keys are untouched, although the
  entry carries the grant.
\<close>

theorem revoke_without_file_refused:
  assumes "entry_file entry = None"
  shows "handleRevoke e entry st =
           st\<lparr>toasts := toasts st @
                [\<lparr>level = ToastError, title = ''Cannot revoke'',
                  description = Some ''Missing file metadata'', txLink = None,
                  duration = None\<rparr>]\<rparr>
         \<and> requests (handleRevoke e entry st) = requests st
         \<and> revokingKeys (handleRevoke e entry st) = revokingKeys st"
  using assms by (simp add: handleRevoke_def handleRevoke_start_def)

theorem revoke_without_file_refused_witness:
  "entry_file ex_entry_null = None
   \<and> isActive (sa_account (entry_sharedAccess ex_entry_null))
   \<and> toasts (handleRevoke (ex_ledger 1 False) ex_entry_null (ex_shared {})) =
       [\<lparr>level = ToastError, title = ''Cannot revoke'',
         description = Some ''Missing file metadata'', txLink = None, duration = None\<rparr>]
   \<and> requests (handleRevoke (ex_ledger 1 False) ex_entry_null (ex_shared {})) = []"
  using revoke_without_file_refused
          [where entry = ex_entry_null and e = "ex_ledger 1 False" and st = "ex_shared {}"]
  by (simp add: ex_entry_null_def ex_shared_def)

end
